theory Spec2Isabelle
  imports Main "HOL-Library.Sublist"
begin

section \<open>Python strings\<close>

text \<open>
  The scripts read each file as text and rewrite it with \<^verbatim>\<open>re.sub\<close> and
  \<^verbatim>\<open>str.replace\<close>. File content is a \<^typ>\<open>string\<close>; a \<^typ>\<open>char\<close> stands for the
  code point of the same number, so the model covers text whose code points are below 256.
  On that range \<^verbatim>\<open>\d\<close> is \<^verbatim>\<open>[0-9]\<close>, \<^verbatim>\<open>\s\<close> and \<^verbatim>\<open>str.strip()\<close> use the
  characters of \<^verbatim>\<open>str.isspace\<close>, and \<^verbatim>\<open>re.IGNORECASE\<close> against an ASCII pattern
  compares lower-cased characters.
\<close>

definition is_digit :: "char \<Rightarrow> bool" where
  "is_digit c = (let n = (of_char c :: nat) in 48 \<le> n \<and> n \<le> 57)"

definition is_space :: "char \<Rightarrow> bool" where
  "is_space c = (let n = (of_char c :: nat) in
     (9 \<le> n \<and> n \<le> 13) \<or> (28 \<le> n \<and> n \<le> 32) \<or> n = 133 \<or> n = 160)"

definition lower_chr :: "char \<Rightarrow> char" where
  "lower_chr c = (let n = (of_char c :: nat) in
     if (65 \<le> n \<and> n \<le> 90) \<or> (192 \<le> n \<and> n \<le> 222 \<and> n \<noteq> 215)
     then char_of (n + 32) else c)"

text \<open>
  The same function on the bits of a character, least significant first: the form in which
  it is evaluated on literals.
\<close>

lemma lower_chr_Char [simp, code]:
  "lower_chr (Char b0 b1 b2 b3 b4 b5 b6 b7) =
     (if b6 \<and> \<not> b5 \<and>
         (if b7 then \<not> (b0 \<and> b1 \<and> b2 \<and> b3 \<and> b4) \<and> \<not> (b0 \<and> b1 \<and> b2 \<and> \<not> b3 \<and> b4)
          else (b0 \<or> b1 \<or> b2 \<or> b3 \<or> b4) \<and> \<not> (b4 \<and> b3 \<and> (b2 \<or> (b1 \<and> b0))))
      then Char b0 b1 b2 b3 b4 True b6 b7 else Char b0 b1 b2 b3 b4 b5 b6 b7)"
  by (cases b0; cases b1; cases b2; cases b3; cases b4; cases b5; cases b6; cases b7;
      simp add: lower_chr_def Let_def char_of_def bit_Suc_0_iff)

text \<open>\<^verbatim>\<open>s.lower()\<close>\<close>

definition lower :: "string \<Rightarrow> string" where
  "lower s = map lower_chr s"

text \<open>\<^verbatim>\<open>sub in s\<close>\<close>

fun occurs :: "string \<Rightarrow> string \<Rightarrow> bool" where
  "occurs sub [] = (sub = [])"
| "occurs sub (x # xs) = (if prefix sub (x # xs) then True else occurs sub xs)"

text \<open>\<^verbatim>\<open>s.startswith(p)\<close> is \<^const>\<open>prefix\<close>, \<^verbatim>\<open>s.endswith(p)\<close> is \<^const>\<open>suffix\<close>.\<close>

text \<open>\<^verbatim>\<open>s.strip()\<close> and \<^verbatim>\<open>s.rstrip(chars)\<close>\<close>

definition strip :: "string \<Rightarrow> string" where
  "strip s = rev (dropWhile is_space (rev (dropWhile is_space s)))"

definition rstrip :: "string \<Rightarrow> string \<Rightarrow> string" where
  "rstrip cs s = rev (dropWhile (\<lambda>c. c \<in> set cs) (rev s))"

text \<open>\<^verbatim>\<open>s.split(sep)\<close> for a one-character separator, and \<^verbatim>\<open>sep.join(parts)\<close>\<close>

fun split :: "char \<Rightarrow> string \<Rightarrow> string list" where
  "split sep [] = [[]]"
| "split sep (x # xs) =
     (if x = sep then [] # split sep xs
      else (case split sep xs of [] \<Rightarrow> [[x]] | l # ls \<Rightarrow> (x # l) # ls))"

fun join :: "string \<Rightarrow> string list \<Rightarrow> string" where
  "join sep [] = []"
| "join sep [l] = l"
| "join sep (l # m # ls) = l @ sep @ join sep (m # ls)"

text \<open>\<^verbatim>\<open>s.replace(old, new)\<close> for a non-empty \<open>old\<close>: leftmost occurrences, not overlapping\<close>

fun replace :: "string \<Rightarrow> string \<Rightarrow> string \<Rightarrow> string" where
  "replace old new [] = []"
| "replace old new (x # xs) =
     (if old \<noteq> [] \<and> prefix old (x # xs)
      then new @ replace old new (drop (length old - 1) xs)
      else x # replace old new xs)"

text \<open>
  \<^verbatim>\<open>int(s)\<close> on a string of decimal digits and \<^verbatim>\<open>str(n)\<close> (what an f-string prints for
  an integer). Python integers are unbounded.
\<close>

definition digit_val :: "char \<Rightarrow> int" where
  "digit_val c = int (of_char c) - 48"

definition py_int :: "string \<Rightarrow> int" where
  "py_int s = foldl (\<lambda>a c. 10 * a + digit_val c) 0 s"

definition digit_chr :: "nat \<Rightarrow> char" where
  "digit_chr n = char_of (48 + n)"

function str_nat :: "nat \<Rightarrow> string" where
  "str_nat n = (if n < 10 then [digit_chr n] else str_nat (n div 10) @ [digit_chr (n mod 10)])"
  by pat_completeness auto
termination
  by (relation "measure id") auto

declare str_nat.simps [simp del]

definition str_int :: "int \<Rightarrow> string" where
  "str_int i = (if i < 0 then CHR ''-'' # str_nat (nat (- i)) else str_nat (nat i))"


section \<open>Regular expressions\<close>

text \<open>
  The patterns of the scripts are built from literal text, single characters of a class,
  greedy and lazy repetition of a class, sequence, alternation and capturing groups (never
  nested). \<open>ms r s\<close> lists, in the order in which Python's backtracking matcher tries them,
  the ways \<open>r\<close> matches at the start of \<open>s\<close>: each with the groups captured and the text
  left. The match Python reports is the first one.
\<close>

datatype re =
    Lit string
  | LitI string
  | Cls "char \<Rightarrow> bool"
  | Star "char \<Rightarrow> bool"
  | Plus "char \<Rightarrow> bool"
  | LazyStar "char \<Rightarrow> bool"
  | Seq re re
  | Alt re re
  | Grp re

fun prefix_ci :: "string \<Rightarrow> string \<Rightarrow> bool" where
  "prefix_ci [] s = True"
| "prefix_ci (p # ps) [] = False"
| "prefix_ci (p # ps) (x # xs) = (if lower_chr p = lower_chr x then prefix_ci ps xs else False)"

text \<open>The texts left after a greedy \<open>C*\<close>: the longest run first, then one character less each.\<close>

fun greedy :: "(char \<Rightarrow> bool) \<Rightarrow> string \<Rightarrow> string list" where
  "greedy p [] = [[]]"
| "greedy p (x # xs) = (if p x then greedy p xs @ [x # xs] else [x # xs])"

fun ms :: "re \<Rightarrow> string \<Rightarrow> (string list \<times> string) list" where
  "ms (Lit l) s = (if prefix l s then [([], drop (length l) s)] else [])"
| "ms (LitI l) s = (if prefix_ci l s then [([], drop (length l) s)] else [])"
| "ms (Cls p) s = (case s of [] \<Rightarrow> [] | x # xs \<Rightarrow> if p x then [([], xs)] else [])"
| "ms (Star p) s = map (Pair []) (greedy p s)"
| "ms (Plus p) s = (case s of [] \<Rightarrow> [] | x # xs \<Rightarrow> if p x then map (Pair []) (greedy p xs) else [])"
| "ms (LazyStar p) s = map (Pair []) (rev (greedy p s))"
| "ms (Seq a b) s = concat (map (\<lambda>(g, r). map (\<lambda>(h, r'). (g @ h, r')) (ms b r)) (ms a s))"
| "ms (Alt a b) s = ms a s @ ms b s"
| "ms (Grp a) s = map (\<lambda>(g, r). (take (length s - length r) s # g, r)) (ms a s)"

text \<open>A match at the start of the text: the matched text, its groups, and the text left.\<close>

definition re_match :: "re \<Rightarrow> string \<Rightarrow> (string \<times> string list \<times> string) option" where
  "re_match r s = (case ms r s of [] \<Rightarrow> None
     | (g, rest) # _ \<Rightarrow> Some (take (length s - length rest) s, g, rest))"

text \<open>\<^verbatim>\<open>match.group(i)\<close> for \<open>i \<ge> 1\<close>\<close>

definition grp :: "string list \<Rightarrow> nat \<Rightarrow> string" where
  "grp g i = (if 0 < i \<and> i \<le> length g then g ! (i - 1) else [])"

text \<open>\<^verbatim>\<open>re.search(r, s)\<close>: the leftmost match, as its text and groups.\<close>

fun re_search :: "re \<Rightarrow> string \<Rightarrow> (string \<times> string list) option" where
  "re_search r [] = (case re_match r [] of None \<Rightarrow> None | Some (m, g, rest) \<Rightarrow> Some (m, g))"
| "re_search r (x # xs) =
     (case re_match r (x # xs) of None \<Rightarrow> re_search r xs | Some (m, g, rest) \<Rightarrow> Some (m, g))"

text \<open>
  \<^verbatim>\<open>re.sub(r, repl, s)\<close> with \<open>repl\<close> a function of the match (a template such as
  \<^verbatim>\<open>rx="\1"\<close> is the function that builds it from the groups). An empty match is
  replaced and the scan moves one character on, as Python 3.7 and later do.
\<close>

fun re_sub :: "re \<Rightarrow> (string \<Rightarrow> string list \<Rightarrow> string) \<Rightarrow> string \<Rightarrow> string" where
  "re_sub r f [] = (case re_match r [] of None \<Rightarrow> [] | Some (m, g, rest) \<Rightarrow> f m g)"
| "re_sub r f (x # xs) =
     (case re_match r (x # xs) of
        None \<Rightarrow> x # re_sub r f xs
      | Some (m, g, rest) \<Rightarrow>
          if m = [] then f m g @ x # re_sub r f xs
          else f m g @ re_sub r f (drop (length m - 1) xs))"

text \<open>\<^verbatim>\<open>re.sub(r, repl, s, count=1)\<close>: only the leftmost match is replaced.\<close>

fun re_sub1 :: "re \<Rightarrow> (string \<Rightarrow> string list \<Rightarrow> string) \<Rightarrow> string \<Rightarrow> string" where
  "re_sub1 r f [] = (case re_match r [] of None \<Rightarrow> [] | Some (m, g, rest) \<Rightarrow> f m g)"
| "re_sub1 r f (x # xs) =
     (case re_match r (x # xs) of
        None \<Rightarrow> x # re_sub1 r f xs
      | Some (m, g, rest) \<Rightarrow> f m g @ rest)"


section \<open>Errors\<close>

text \<open>
  The exceptions the scripts can meet: \<^verbatim>\<open>re.error\<close> from a replacement template,
  \<^verbatim>\<open>OSError\<close> from opening a file, \<^verbatim>\<open>UnicodeDecodeError\<close> from reading it.
\<close>

datatype py_error = ReError | OSError | UnicodeDecodeError

text \<open>
  A replacement given to \<^verbatim>\<open>re.sub\<close> as a string is a template. Without a backslash it
  stands for itself. With one, Python's template parser decides (an escape, a group
  reference, or \<^verbatim>\<open>re.error\<close>); that parser is not part of the scripts and is the
  parameter \<open>ex\<close>. The template is parsed before the text is searched.
\<close>

type_synonym repl = "string \<Rightarrow> string list \<Rightarrow> string"
type_synonym expander = "string \<Rightarrow> py_error + repl"

definition compile_template :: "expander \<Rightarrow> string \<Rightarrow> py_error + repl" where
  "compile_template ex t = (if CHR 0x5C \<in> set t then ex t else Inr (\<lambda>m g. t))"

definition not_chr :: "char \<Rightarrow> char \<Rightarrow> bool" where
  "not_chr c x = (x \<noteq> c)"


section \<open>fix\_svgs\_properly.py\<close>

definition re_viewBox :: re where
  \<open>re_viewBox = Seq (Lit ''viewBox="'') (Seq (Grp (Plus (not_chr (CHR 0x22)))) (Lit ''"''))\<close>

definition re_width :: re where
  \<open>re_width = Seq (Lit ''width="'') (Seq (Grp (Plus is_digit)) (Lit ''"''))\<close>

definition re_height :: re where
  \<open>re_height = Seq (Lit ''height="'') (Seq (Grp (Plus is_digit)) (Lit ''"''))\<close>

definition re_svg_tag :: re where
  \<open>re_svg_tag = Seq (Lit ''<svg'') (Seq (Star (not_chr (CHR ''>''))) (Lit ''>''))\<close>

definition re_font_size :: re where
  \<open>re_font_size = Seq (Lit ''font-size="'') (Seq (Grp (Plus is_digit)) (Lit ''"''))\<close>

text \<open>The header step (1): the opening \<^verbatim>\<open><svg ...>\<close> tag is replaced once.\<close>

definition choose_viewbox :: "string \<Rightarrow> string" where
  \<open>choose_viewbox content =
     (case re_search re_viewBox content of
        Some (m, g) \<Rightarrow> grp g 1
      | None \<Rightarrow>
          (case (re_search re_width content, re_search re_height content) of
             (Some (mw, gw), Some (mh, gh)) \<Rightarrow> ''0 0 '' @ grp gw 1 @ '' '' @ grp gh 1
           | _ \<Rightarrow> ''0 0 800 600''))\<close>

definition fix_header :: "expander \<Rightarrow> string \<Rightarrow> py_error + string" where
  \<open>fix_header ex content =
     (if occurs ''<svg'' content then
        let viewbox = choose_viewbox content;
            svg_replacement = ''<svg viewBox="'' @ viewbox @
              ''" xmlns="http://www.w3.org/2000/svg" style="width: 100%; height: auto; max-width: 100%; display: block;">''
        in (case compile_template ex svg_replacement of
              Inl e \<Rightarrow> Inl e
            | Inr f \<Rightarrow> Inr (re_sub1 re_svg_tag f content))
      else Inr content)\<close>

text \<open>Step 2: the callback of the font-size substitution.\<close>

definition properly_increase_font_size :: repl where
  \<open>properly_increase_font_size m g =
     (let size = py_int (grp g 1) in
      if size < 14 then ''font-size="16"''
      else if size < 16 then ''font-size="18"''
      else if size < 18 then ''font-size="20"''
      else ''font-size="'' @ str_int (size + 4) @ ''"'')\<close>

text \<open>Step 3: the colour table, in the order of the dictionary.\<close>

definition color_replacements :: "(string \<times> string) list" where
  \<open>color_replacements =
   [(''#CBD5E0'', ''#1F2937''), (''#A0AEC0'', ''#374151''), (''#E2E8F0'', ''#1F2937''),
    (''#EDF2F7'', ''#111827''), (''#F7FAFC'', ''#111827''), (''#9CA3AF'', ''#374151''),
    (''#D1D5DB'', ''#4B5563''), (''#718096'', ''#374151''), (''#4A5568'', ''#1F2937''),
    (''#90CDF4'', ''#1E40AF''), (''#63B3ED'', ''#2563EB''), (''#4A90E2'', ''#1D4ED8''),
    (''#81E6D9'', ''#0E7490''), (''#4FD1C5'', ''#0891B2''), (''#38D4B2'', ''#0D9488''),
    (''#E9D8FD'', ''#6B21A8''), (''#D6BCFA'', ''#7C3AED''), (''#B794F4'', ''#9333EA''),
    (''#9F7AEA'', ''#7C3AED''),
    (''#FBD38D'', ''#C2410C''), (''#F6AD55'', ''#EA580C''), (''#ED8936'', ''#C2410C''),
    (''#FEB2B2'', ''#B91C1C''), (''#FC8181'', ''#DC2626''), (''#E53E3E'', ''#DC2626''),
    (''#9AE6B4'', ''#047857''), (''#68D391'', ''#059669''), (''#48BB78'', ''#047857''),
    (''#38A169'', ''#059669''), (''#B2F5EA'', ''#047857''),
    (''#888'', ''#374151''), (''#888888'', ''#374151''), (''#FAFAFA'', ''transparent''),
    (''#fff'', ''#111827''), (''#ffffff'', ''#111827''), (''#FFF'', ''#111827''),
    (''#FFFFFF'', ''#111827'')]\<close>

text \<open>One round of the loop over the table: four substitutions under \<^verbatim>\<open>re.IGNORECASE\<close>.\<close>

definition recolor :: "string \<Rightarrow> string \<times> string \<Rightarrow> string" where
  \<open>recolor content oc =
     (case oc of (old_color, new_color) \<Rightarrow>
        re_sub (LitI (''stroke:'' @ old_color)) (\<lambda>m g. ''stroke:'' @ new_color)
          (re_sub (LitI (''fill:'' @ old_color)) (\<lambda>m g. ''fill:'' @ new_color)
            (re_sub (LitI (''stroke="'' @ old_color @ ''"'')) (\<lambda>m g. ''stroke="'' @ new_color @ ''"'')
              (re_sub (LitI (''fill="'' @ old_color @ ''"'')) (\<lambda>m g. ''fill="'' @ new_color @ ''"'')
                content))))\<close>

definition recolor_all :: "string \<Rightarrow> string" where
  "recolor_all content = foldl recolor content color_replacements"

text \<open>Step 4: a \<^verbatim>\<open><rect ...>\<close> tag with a light fill is deleted.\<close>

definition re_rect_fill :: "string \<Rightarrow> re" where
  \<open>re_rect_fill v =
     Seq (Lit ''<rect'') (Seq (Star (not_chr (CHR ''>'')))
       (Seq (Lit (''fill="'' @ v @ ''"'')) (Seq (Star (not_chr (CHR ''>''))) (Lit ''>''))))\<close>

definition remove_backgrounds :: "string \<Rightarrow> string" where
  \<open>remove_backgrounds content =
     re_sub (re_rect_fill ''#ffffff'') (\<lambda>m g. [])
       (re_sub (re_rect_fill ''#FFFFFF'') (\<lambda>m g. [])
         (re_sub (re_rect_fill ''white'') (\<lambda>m g. [])
           (re_sub (re_rect_fill ''#FAFAFA'') (\<lambda>m g. []) content)))\<close>

text \<open>Steps 5 to 8: stroke widths, font weight, font family, the arrow marker.\<close>

definition re_font_family :: re where
  \<open>re_font_family = Seq (Lit ''font-family="'') (Seq (Star (not_chr (CHR 0x22))) (Lit ''"''))\<close>

definition fix_strokes_and_fonts :: "string \<Rightarrow> string" where
  \<open>fix_strokes_and_fonts content =
     re_sub (Lit ''<path d="M0,0 L0,6 L9,3 z" fill="#888"/>'')
         (\<lambda>m g. ''<path d="M0,0 L0,6 L9,3 z" fill="#374151"/>'')
       (re_sub re_font_family
           (\<lambda>m g. ''font-family="system-ui, -apple-system, BlinkMacSystemFont, Segoe UI, Roboto, sans-serif"'')
         (re_sub (Lit ''font-weight="bold"'') (\<lambda>m g. ''font-weight="700"'')
           (re_sub (Lit ''stroke-width="0.5"'') (\<lambda>m g. ''stroke-width="2"'')
             (re_sub (Lit ''stroke-width="1"'') (\<lambda>m g. ''stroke-width="2"'') content))))\<close>

text \<open>Step 9: twenty units of padding around a viewBox of four non-negative integers.\<close>

definition re_viewBox_ints :: re where
  \<open>re_viewBox_ints =
     Seq (Lit ''viewBox="'') (Seq (Grp (Plus is_digit)) (Seq (Plus is_space)
       (Seq (Grp (Plus is_digit)) (Seq (Plus is_space)
         (Seq (Grp (Plus is_digit)) (Seq (Plus is_space)
           (Seq (Grp (Plus is_digit)) (Lit ''"''))))))))\<close>

definition re_viewBox_any :: re where
  \<open>re_viewBox_any = Seq (Lit ''viewBox="'') (Seq (Star (not_chr (CHR 0x22))) (Lit ''"''))\<close>

definition pad_viewbox :: "string \<Rightarrow> string" where
  \<open>pad_viewbox content =
     (case re_search re_viewBox_ints content of
        None \<Rightarrow> content
      | Some (m, g) \<Rightarrow>
          let x = py_int (grp g 1); y = py_int (grp g 2);
              width = py_int (grp g 3); height = py_int (grp g 4);
              new_viewbox = ''viewBox="'' @ str_int (x - 20) @ '' '' @ str_int (y - 20) @ '' ''
                 @ str_int (width + 40) @ '' '' @ str_int (height + 40) @ ''"''
          in re_sub1 re_viewBox_any (\<lambda>m g. new_viewbox) content)\<close>

text \<open>\<^verbatim>\<open>fix_svg_content(content, filename)\<close>\<close>

definition fix_svg_content :: "expander \<Rightarrow> string \<Rightarrow> string \<Rightarrow> py_error + string" where
  "fix_svg_content ex content filename =
     (case fix_header ex content of
        Inl e \<Rightarrow> Inl e
      | Inr content \<Rightarrow>
          Inr (pad_viewbox (fix_strokes_and_fonts (remove_backgrounds (recolor_all
                 (re_sub re_font_size properly_increase_font_size content))))))"


subsection \<open>The rectangle scenario\<close>

text \<open>
  C1. The content \<^verbatim>\<open><rect fill="#FAFAFA" stroke-width="1" width="100" height="50"/>\<close>
  run through \<^verbatim>\<open>fix_svg_content\<close> comes out as a rect whose fill is no longer
  \<^verbatim>\<open>#FAFAFA\<close> and whose stroke width is 2: the colour table turns the fill into
  \<^verbatim>\<open>transparent\<close> before the background rule looks for it, so the rect itself stays.
\<close>

theorem C1_rect_scenario:
  \<open>fix_svg_content ex ''<rect fill="#FAFAFA" stroke-width="1" width="100" height="50"/>'' filename
     = Inr ''<rect fill="transparent" stroke-width="2" width="100" height="50"/>''
   \<and> occurs ''<rect'' ''<rect fill="transparent" stroke-width="2" width="100" height="50"/>''
   \<and> occurs ''stroke-width="2"'' ''<rect fill="transparent" stroke-width="2" width="100" height="50"/>''
   \<and> \<not> occurs ''fill="#FAFAFA"'' ''<rect fill="transparent" stroke-width="2" width="100" height="50"/>''\<close>
proof -
  have run: \<open>fix_svg_content ex ''<rect fill="#FAFAFA" stroke-width="1" width="100" height="50"/>'' filename
     = Inr ''<rect fill="transparent" stroke-width="2" width="100" height="50"/>''\<close>
    unfolding fix_svg_content_def by code_simp
  have rect: \<open>occurs ''<rect'' ''<rect fill="transparent" stroke-width="2" width="100" height="50"/>''\<close>
    by code_simp
  have width: \<open>occurs ''stroke-width="2"'' ''<rect fill="transparent" stroke-width="2" width="100" height="50"/>''\<close>
    by code_simp
  have fill: \<open>\<not> occurs ''fill="#FAFAFA"'' ''<rect fill="transparent" stroke-width="2" width="100" height="50"/>''\<close>
    by code_simp
  from run rect width fill show ?thesis by blast
qed


section \<open>rebuild\_svgs.py\<close>

text \<open>
  A Python float is kept as what \<^verbatim>\<open>create_curved_arrow\<close> reads of it: whether it is
  below 1.0, and what an f-string prints for it.
\<close>

record pyfloat =
  below_one :: bool
  shown :: string

text \<open>\<^verbatim>\<open>f"{p[0]},{p[1]}"\<close>\<close>

definition point :: "int \<times> int \<Rightarrow> string" where
  "point p = str_int (fst p) @ '','' @ str_int (snd p)"

definition create_curved_arrow :: "(int \<times> int) list \<Rightarrow> bool \<Rightarrow> pyfloat \<Rightarrow> string" where
  \<open>create_curved_arrow points dashed opacity =
     (let dash_attr = (if dashed then '' stroke-dasharray="3,3"'' else []);
          opacity_attr = (if below_one opacity then '' opacity="'' @ shown opacity @ ''"'' else [])
      in if length points < 3 then []
         else
           let path = ''M'' @ point (points ! 0);
               path = (if length points = 3
                       then path @ '' Q'' @ point (points ! 1) @ '' '' @ point (points ! 2)
                       else foldl (\<lambda>path i. path @ '' L'' @ point (points ! i)) path [1..<length points])
           in ''<path d="'' @ path @ ''" marker-end="url(#arrow)"'' @ dash_attr @ opacity_attr @ ''/>'')\<close>

text \<open>The two optional attributes, as the function builds them.\<close>

definition arrow_attrs :: "bool \<Rightarrow> pyfloat \<Rightarrow> string" where
  \<open>arrow_attrs dashed opacity =
     (if dashed then '' stroke-dasharray="3,3"'' else []) @
     (if below_one opacity then '' opacity="'' @ shown opacity @ ''"'' else [])\<close>

lemma line_segments:
  "foldl (\<lambda>path i. path @ f (ps ! i)) a [k..<length ps] = a @ concat (map f (drop k ps))"
proof (induction "length ps - k" arbitrary: k a)
  case 0
  then show ?case by simp
next
  case (Suc n)
  then have k: "k < length ps" by simp
  have "[k..<length ps] = k # [Suc k..<length ps]"
    using k by (simp add: upt_conv_Cons)
  moreover have "drop k ps = ps ! k # drop (Suc k) ps"
    using k by (simp add: Cons_nth_drop_Suc)
  moreover have "n = length ps - Suc k" using Suc.hyps by simp
  ultimately show ?case using Suc.hyps(1) [of "Suc k" "a @ f (ps ! k)"] by simp
qed

text \<open>
  C9. Fewer than three points give the empty string; exactly three give a move and one
  quadratic segment through the middle point; more than three give a move and a straight
  segment to every further point. Both paths end in \<^verbatim>\<open>marker-end="url(#arrow)"\<close>.
\<close>

theorem C9_create_curved_arrow:
  \<open>(length points < 3 \<longrightarrow> create_curved_arrow points dashed opacity = [])
   \<and> (points = [p0, p1, p2] \<longrightarrow>
        create_curved_arrow points dashed opacity =
          ''<path d="M'' @ point p0 @ '' Q'' @ point p1 @ '' '' @ point p2
            @ ''" marker-end="url(#arrow)"'' @ arrow_attrs dashed opacity @ ''/>'')
   \<and> (3 < length points \<longrightarrow>
        create_curved_arrow points dashed opacity =
          ''<path d="M'' @ point (hd points) @ concat (map (\<lambda>p. '' L'' @ point p) (tl points))
            @ ''" marker-end="url(#arrow)"'' @ arrow_attrs dashed opacity @ ''/>'')\<close>
proof (intro conjI impI)
  assume "length points < 3"
  then show "create_curved_arrow points dashed opacity = []"
    by (simp add: create_curved_arrow_def Let_def)
next
  assume "points = [p0, p1, p2]"
  then show \<open>create_curved_arrow points dashed opacity =
          ''<path d="M'' @ point p0 @ '' Q'' @ point p1 @ '' '' @ point p2
            @ ''" marker-end="url(#arrow)"'' @ arrow_attrs dashed opacity @ ''/>''\<close>
    by (simp add: create_curved_arrow_def arrow_attrs_def Let_def)
next
  assume long: "3 < length points"
  then have hd: "points ! 0 = hd points"
    by (cases points) simp_all
  have segs: "foldl (\<lambda>path i. path @ '' L'' @ point (points ! i)) a [1..<length points]
      = a @ concat (map (\<lambda>p. '' L'' @ point p) (tl points))" for a
    using line_segments [of "\<lambda>p. '' L'' @ point p" points a 1] by (simp add: drop_Suc)
  show \<open>create_curved_arrow points dashed opacity =
          ''<path d="M'' @ point (hd points) @ concat (map (\<lambda>p. '' L'' @ point p) (tl points))
            @ ''" marker-end="url(#arrow)"'' @ arrow_attrs dashed opacity @ ''/>''\<close>
    using long segs [of "''M'' @ point (hd points)"]
    by (simp add: create_curved_arrow_def arrow_attrs_def Let_def hd)
qed


theorem C9_create_curved_arrow_witness:
  \<open>create_curved_arrow [(1, 2), (3, 4)] True \<lparr>below_one = True, shown = ''0.4''\<rparr> = []
   \<and> create_curved_arrow [(740, 260), (740, 220), (550, 180)] True \<lparr>below_one = True, shown = ''0.4''\<rparr>
       = ''<path d="M740,260 Q740,220 550,180" marker-end="url(#arrow)" stroke-dasharray="3,3" opacity="0.4"/>''
   \<and> create_curved_arrow [(70, 100), (70, 130), (400, 130), (400, 160)] False \<lparr>below_one = False, shown = ''1.0''\<rparr>
       = ''<path d="M70,100 L70,130 L400,130 L400,160" marker-end="url(#arrow)"/>''\<close>
proof -
  have n: "str_int 740 = ''740''" "str_int 260 = ''260''" "str_int 220 = ''220''"
    "str_int 550 = ''550''" "str_int 180 = ''180''" "str_int 70 = ''70''" "str_int 100 = ''100''"
    "str_int 130 = ''130''" "str_int 400 = ''400''" "str_int 160 = ''160''"
    by code_simp+
  show ?thesis
    using C9_create_curved_arrow [of "[(1, 2), (3, 4)]" True "\<lparr>below_one = True, shown = ''0.4''\<rparr>"]
      C9_create_curved_arrow [of "[(740, 260), (740, 220), (550, 180)]" True
        "\<lparr>below_one = True, shown = ''0.4''\<rparr>" "(740, 260)" "(740, 220)" "(550, 180)"]
      C9_create_curved_arrow [of "[(70, 100), (70, 130), (400, 130), (400, 160)]" False
        "\<lparr>below_one = False, shown = ''1.0''\<rparr>"]
    by (simp add: point_def arrow_attrs_def n)
qed



section \<open>fix\_svg\_attributes.py\<close>

definition is_lower_or_dash :: "char \<Rightarrow> bool" where
  "is_lower_or_dash c = (let n = (of_char c :: nat) in (97 \<le> n \<and> n \<le> 122) \<or> c = CHR ''-'')"

text \<open>The eight substitutions of \<^verbatim>\<open>fix_malformed_attributes\<close>, in order.\<close>

definition re_rx_slash :: "string \<Rightarrow> re" where
  \<open>re_rx_slash a =
     Seq (Lit (a @ ''="'')) (Seq (Grp (Plus (not_chr (CHR 0x22))))
       (Seq (Lit ''"'') (Seq (Star is_space) (Lit ''/''))))\<close>

definition re_rx_filter :: re where
  \<open>re_rx_filter =
     Seq (Lit ''rx="'') (Seq (Grp (Plus (not_chr (CHR 0x22)))) (Seq (Lit ''"/'')
       (Seq (Star is_space) (Seq (Lit ''filter="'') (Seq (Grp (Plus (not_chr (CHR 0x22)))) (Lit ''"''))))))\<close>

definition re_attr_gap :: re where
  \<open>re_attr_gap =
     Seq (Lit ''"'') (Seq (Plus is_space) (Seq (Grp (Plus is_lower_or_dash)) (Lit ''="'')))\<close>

definition re_rect_ending :: re where
  \<open>re_rect_ending =
     Seq (Lit ''<rect'') (Seq (Grp (Plus (not_chr (CHR ''>'')))) (Seq (Lit ''"'')
       (Seq (Star is_space) (Seq (Lit ''/'') (Seq (Plus is_space)
         (Seq (Grp (Plus is_lower_or_dash)) (Seq (Lit ''="'')
           (Seq (Grp (Plus (not_chr (CHR 0x22)))) (Lit ''">'')))))))))\<close>

definition re_stroke_rx_filter :: re where
  \<open>re_stroke_rx_filter =
     Seq (Lit ''stroke-width="'') (Seq (Grp (Plus is_digit)) (Seq (Lit ''"'')
       (Seq (Plus is_space) (Seq (Lit ''rx="'') (Seq (Grp (Plus is_digit)) (Seq (Lit ''"/'')
         (Seq (Star is_space) (Seq (Lit ''filter="'')
           (Seq (Grp (Plus (not_chr (CHR 0x22)))) (Lit ''">''))))))))))\<close>

definition re_quote_slash :: re where
  \<open>re_quote_slash =
     Seq (Lit ''="'') (Seq (Grp (Star (not_chr (CHR 0x22))))
       (Seq (Lit ''"'') (Seq (Star is_space) (Lit ''/''))))\<close>

definition fix_patterns :: "string \<Rightarrow> string" where
  \<open>fix_patterns content =
     re_sub re_quote_slash (\<lambda>m g. ''="'' @ grp g 1 @ ''"'')
      (re_sub re_stroke_rx_filter
         (\<lambda>m g. ''stroke-width="'' @ grp g 1 @ ''" rx="'' @ grp g 2 @ ''" filter="'' @ grp g 3 @ ''">'')
       (re_sub re_rect_ending
          (\<lambda>m g. ''<rect'' @ grp g 1 @ ''" '' @ grp g 2 @ ''="'' @ grp g 3 @ ''">'')
        (re_sub re_attr_gap (\<lambda>m g. ''" '' @ grp g 1 @ ''="'')
         (re_sub (Lit ''/>>'') (\<lambda>m g. ''/>'')
          (re_sub re_rx_filter (\<lambda>m g. ''rx="'' @ grp g 1 @ ''" filter="'' @ grp g 2 @ ''"'')
           (re_sub (re_rx_slash ''ry'') (\<lambda>m g. ''ry="'' @ grp g 1 @ ''"'')
            (re_sub (re_rx_slash ''rx'') (\<lambda>m g. ''rx="'' @ grp g 1 @ ''"'') content)))))))\<close>

text \<open>The pass over the lines: a rect line that ends in \<^verbatim>\<open>>\<close> is closed again.\<close>

definition fix_line :: "string \<Rightarrow> string" where
  \<open>fix_line line =
     (if occurs ''<rect'' line \<and> suffix ''>'' (strip line) \<and> \<not> suffix ''/>'' (strip line)
      then (if occurs ''fill="none"'' line \<or> occurs ''fill="transparent"'' line
               \<or> occurs ''fill="white"'' line
            then rstrip ''>'' line @ ''/>'' else line)
      else line)\<close>

definition fix_malformed_attributes :: "string \<Rightarrow> string" where
  \<open>fix_malformed_attributes content =
     join ''\<newline>'' (map fix_line (split (CHR ''\<newline>'') (fix_patterns content)))\<close>


section \<open>safe\_svg\_improve.py\<close>

text \<open>\<^verbatim>\<open>content.split(">")[0]\<close>\<close>

definition before_first_gt :: "string \<Rightarrow> string" where
  "before_first_gt content = (case split (CHR ''>'') content of [] \<Rightarrow> [] | a # _ \<Rightarrow> a)"

definition re_svg_open :: re where
  \<open>re_svg_open = Seq (Grp (Seq (Lit ''<svg'') (Star (not_chr (CHR ''>''))))) (Grp (Lit ''>''))\<close>

definition add_style :: "string \<Rightarrow> string" where
  \<open>add_style content =
     re_sub1 re_svg_open (\<lambda>m g. grp g 1 @ '' style="max-width: 100%; height: auto;"'' @ grp g 2) content\<close>

definition safe_increase_font_size :: repl where
  \<open>safe_increase_font_size m g =
     (let size = py_int (grp g 1) in
      if size < 12 then ''font-size="14"''
      else if size = 12 \<or> size = 13 then ''font-size="14"''
      else m)\<close>

definition text_color_improvements :: "(string \<times> string) list" where
  \<open>text_color_improvements =
   [(''#CBD5E0'', ''#374151''), (''#A0AEC0'', ''#4B5563''), (''#718096'', ''#374151''),
    (''#E9D8FD'', ''#6B21A8''), (''#FBD38D'', ''#92400E''), (''#90CDF4'', ''#1E40AF''),
    (''#B2F5EA'', ''#047857''), (''#9AE6B4'', ''#047857'')]\<close>

definition re_text_fill :: "string \<Rightarrow> re" where
  \<open>re_text_fill old_color =
     Seq (Grp (Seq (LitI ''<text'') (Seq (Star (not_chr (CHR ''>''))) (LitI ''fill="''))))
       (Seq (LitI old_color) (Grp (Lit ''"'')))\<close>

definition improve_text_color :: "string \<Rightarrow> string \<times> string \<Rightarrow> string" where
  "improve_text_color content oc =
     (case oc of (old_color, new_color) \<Rightarrow>
        re_sub (re_text_fill old_color) (\<lambda>m g. grp g 1 @ new_color @ grp g 2) content)"

definition re_rect_closed :: re where
  \<open>re_rect_closed = Seq (Lit ''<rect'') (Seq (Star (not_chr (CHR ''>''))) (Lit ''/>''))\<close>

definition safe_add_rounded_corners :: repl where
  \<open>safe_add_rounded_corners rect g =
     (if \<not> occurs ''rx='' rect \<and> occurs ''fill="none"'' rect
      then take (length rect - 2) rect @ '' rx="4"/>'' else rect)\<close>

definition apple_fonts :: string where
  \<open>apple_fonts = ''font-family="-apple-system, BlinkMacSystemFont, '' @ [CHR 0x27] @ ''Segoe UI''
     @ [CHR 0x27] @ '', Roboto, Arial, sans-serif"''\<close>

text \<open>The content steps 1 to 8 of \<^verbatim>\<open>safe_improve_svg\<close>.\<close>

definition safe_improve_content :: "string \<Rightarrow> string" where
  \<open>safe_improve_content original_content =
     (let content = (if \<not> occurs ''style='' (before_first_gt original_content)
                     then add_style original_content else original_content);
          content = re_sub re_font_size safe_increase_font_size content;
          content = foldl improve_text_color content text_color_improvements;
          content = re_sub (Lit ''stroke-width="1"'') (\<lambda>m g. ''stroke-width="2"'') content;
          content = re_sub (Lit ''stroke-width="0.5"'') (\<lambda>m g. ''stroke-width="2"'') content;
          content = re_sub re_rect_closed safe_add_rounded_corners content;
          content = re_sub (Lit ''fill="#888"'') (\<lambda>m g. ''fill="#374151"'') content;
          content = re_sub (Lit ''font-family="Arial, sans-serif"'') (\<lambda>m g. apple_fonts) content;
          content = re_sub (Lit ''font-weight="bold"'') (\<lambda>m g. ''font-weight="600"'') content
      in content)\<close>


section \<open>minimal\_svg\_fix.py\<close>

definition minimal_fix_font_size :: repl where
  \<open>minimal_fix_font_size m g =
     (let size = py_int (grp g 1) in
      if size \<le> 11 then ''font-size="16"''
      else if size = 12 then ''font-size="18"''
      else if size \<le> 14 then ''font-size="20"''
      else ''font-size="'' @ str_int (size + 4) @ ''"'')\<close>

text \<open>The twenty \<^verbatim>\<open>content.replace('fill="old"', 'fill="new"')\<close> calls, in order.\<close>

definition minimal_fills :: "(string \<times> string) list" where
  \<open>minimal_fills =
   [(''#CBD5E0'', ''#1F2937''), (''#A0AEC0'', ''#374151''), (''#718096'', ''#374151''),
    (''#E2E8F0'', ''#1F2937''),
    (''#90CDF4'', ''#1E40AF''), (''#63B3ED'', ''#2563EB''),
    (''#E9D8FD'', ''#7C3AED''), (''#D6BCFA'', ''#9333EA''), (''#B794F4'', ''#9333EA''),
    (''#FBD38D'', ''#EA580C''), (''#F6AD55'', ''#D97706''),
    (''#FEB2B2'', ''#DC2626''), (''#FC8181'', ''#EF4444''),
    (''#9AE6B4'', ''#10B981''), (''#68D391'', ''#059669''), (''#48BB78'', ''#047857''),
    (''#81E6D9'', ''#0891B2''), (''#4FD1C5'', ''#0891B2''), (''#B2F5EA'', ''#0E7490''),
    (''#888'', ''#4B5563'')]\<close>

definition fill_attr :: "string \<Rightarrow> string" where
  \<open>fill_attr color = ''fill="'' @ color @ ''"''\<close>

definition stroke_attr :: "string \<Rightarrow> string" where
  \<open>stroke_attr color = ''stroke="'' @ color @ ''"''\<close>

definition minimal_refill :: "string \<Rightarrow> string \<times> string \<Rightarrow> string" where
  "minimal_refill content oc = replace (fill_attr (fst oc)) (fill_attr (snd oc)) content"

text \<open>The content steps 1 to 3 of \<^verbatim>\<open>minimal_fix_svg\<close>.\<close>

definition minimal_fix_content :: "string \<Rightarrow> string" where
  \<open>minimal_fix_content content0 =
     (let content = re_sub re_font_size minimal_fix_font_size content0;
          content = foldl minimal_refill content minimal_fills
      in if occurs ''<svg'' content \<and> \<not> occurs ''style='' (before_first_gt content)
         then add_style content else content)\<close>



section \<open>fix\_all\_svgs.py\<close>

definition re_double_style :: re where
  \<open>re_double_style =
     Seq (Lit ''style="'') (Seq (Star (not_chr (CHR 0x22))) (Seq (Lit ''"'')
       (Seq (Star (not_chr (CHR ''>''))) (Seq (Lit ''style="'')
         (Seq (Star (not_chr (CHR 0x22))) (Lit ''"''))))))\<close>

text \<open>The header written in front of every file, around the viewBox chosen for it.\<close>

definition svg_header :: "string \<Rightarrow> string" where
  \<open>svg_header viewbox =
     ''<?xml version="1.0" encoding="UTF-8"?>\<newline>''
     @ ''<svg viewBox="''
     @ viewbox
     @ ''" xmlns="http://www.w3.org/2000/svg" style="max-width: 100%; height: auto;">\<newline>''
     @ ''  <defs>\<newline>''
     @ ''    <!-- Arrow markers -->\<newline>''
     @ ''    <marker id="arrow" markerWidth="10" markerHeight="10" refX="9" refY="3" orient="auto" markerUnits="strokeWidth">\<newline>''
     @ ''      <path d="M0,0 L0,6 L9,3 z" fill="#2563EB"/>\<newline>''
     @ ''    </marker>\<newline>''
     @ ''\<newline>''
     @ ''    <!-- Drop shadow for depth -->\<newline>''
     @ ''    <filter id="shadow" x="-20%" y="-20%" width="140%" height="140%">\<newline>''
     @ ''      <feGaussianBlur in="SourceAlpha" stdDeviation="2"/>\<newline>''
     @ ''      <feOffset dx="1" dy="1" result="offsetblur"/>\<newline>''
     @ ''      <feComponentTransfer>\<newline>''
     @ ''        <feFuncA type="linear" slope="0.2"/>\<newline>''
     @ ''      </feComponentTransfer>\<newline>''
     @ ''      <feMerge>\<newline>''
     @ ''        <feMergeNode/>\<newline>''
     @ ''        <feMergeNode in="SourceGraphic"/>\<newline>''
     @ ''      </feMerge>\<newline>''
     @ ''    </filter>\<newline>''
     @ ''  </defs>\<newline>''\<close>

definition re_xml_decl :: re where
  \<open>re_xml_decl = Seq (Lit ''<?xml'') (Seq (Star (not_chr (CHR ''>''))) (Lit ''?>''))\<close>

definition re_defs :: re where
  \<open>re_defs = Seq (Lit ''<defs>'') (Seq (LazyStar (\<lambda>c. True)) (Lit ''</defs>''))\<close>

definition all_fix_font_size :: repl where
  \<open>all_fix_font_size m g =
     (let size = py_int (grp g 1) in
      if size < 12 then ''font-size="14"''
      else if size < 14 then ''font-size="14"''
      else if size > 24 then ''font-size="24"''
      else m)\<close>

definition color_map :: "(string \<times> string) list" where
  \<open>color_map =
   [(''#63B3ED'', ''#2563EB''), (''#90CDF4'', ''#3B82F6''), (''#4A90E2'', ''#2563EB''),
    (''#CBD5E0'', ''#1F2937''), (''#A0AEC0'', ''#4B5563''),
    (''#68D391'', ''#059669''), (''#48BB78'', ''#10B981''), (''#38A169'', ''#059669''),
    (''#9AE6B4'', ''#10B981''),
    (''#B794F4'', ''#7C3AED''), (''#D6BCFA'', ''#8B5CF6''), (''#9F7AEA'', ''#7C3AED''),
    (''#E9D8FD'', ''#8B5CF6''),
    (''#F6AD55'', ''#EA580C''), (''#FBD38D'', ''#F97316''), (''#ED8936'', ''#EA580C''),
    (''#FC8181'', ''#DC2626''), (''#FEB2B2'', ''#EF4444''), (''#E53E3E'', ''#DC2626''),
    (''#4FD1C5'', ''#0891B2''), (''#81E6D9'', ''#06B6D4''), (''#38D4B2'', ''#0891B2''),
    (''#B2F5EA'', ''#06B6D4''),
    (''#4A5568'', ''#6B7280''), (''#718096'', ''#6B7280''), (''#888'', ''#6B7280'')]\<close>

text \<open>One round of the loop over \<^verbatim>\<open>color_map\<close>: four \<^verbatim>\<open>str.replace\<close> calls.\<close>

definition map_color :: "string \<Rightarrow> string \<times> string \<Rightarrow> string" where
  "map_color main_content oc =
     (case oc of (old_color, new_color) \<Rightarrow>
        replace (stroke_attr (lower old_color)) (stroke_attr new_color)
          (replace (fill_attr (lower old_color)) (fill_attr new_color)
            (replace (stroke_attr old_color) (stroke_attr new_color)
              (replace (fill_attr old_color) (fill_attr new_color) main_content))))"

definition all_add_rounded_corners :: repl where
  \<open>all_add_rounded_corners rect g =
     (if \<not> occurs ''rx='' rect then take (length rect - 1) rect @ '' rx="6"/>'' else rect)\<close>

text \<open>What \<^verbatim>\<open>fix_svg_file\<close> of this script computes between reading and writing.\<close>

definition all_fix_content :: "string \<Rightarrow> string" where
  \<open>all_fix_content content0 =
     (let content = re_sub re_double_style (\<lambda>m g. []) content0;
          content = (if \<not> prefix ''<?xml'' (strip content)
                     then ''<?xml version="1.0" encoding="UTF-8"?>\<newline>'' @ content else content);
          viewbox = choose_viewbox content;
          main_content = re_sub re_xml_decl (\<lambda>m g. []) content;
          main_content = re_sub re_svg_tag (\<lambda>m g. []) main_content;
          main_content = re_sub (Lit ''</svg>'') (\<lambda>m g. []) main_content;
          main_content = re_sub re_defs (\<lambda>m g. []) main_content;
          main_content = re_sub re_font_size all_fix_font_size main_content;
          main_content = foldl map_color main_content color_map;
          main_content = re_sub re_font_family
             (\<lambda>m g. ''font-family="system-ui, -apple-system, sans-serif"'') main_content;
          main_content = re_sub (Lit ''stroke-width="1"'') (\<lambda>m g. ''stroke-width="2"'') main_content;
          main_content = re_sub re_rect_closed all_add_rounded_corners main_content
      in svg_header viewbox @ main_content @ ''\<newline></svg>'')\<close>



section \<open>Files and the batch loops\<close>

text \<open>
  The scripts touch the file system through \<^verbatim>\<open>open(path, "r").read()\<close>,
  \<^verbatim>\<open>open(path, "w").write(text)\<close> and \<^verbatim>\<open>os.path.exists\<close>. A stored file has a
  text (or bytes that do not decode) and may be unreadable or read-only. The world also
  says where a new file may be created, and keeps the list of paths written, oldest first,
  so that a rewrite with the same text can be told from no write. The list of paths a
  script gets from \<^verbatim>\<open>glob\<close> is an argument of its loop.
\<close>

type_synonym path = string

record file_entry =
  body :: "string option"
  readable :: bool
  writable :: bool

record world =
  files :: "path \<Rightarrow> file_entry option"
  creatable :: "path \<Rightarrow> bool"
  writes :: "path list"

definition read_text :: "world \<Rightarrow> path \<Rightarrow> py_error + string" where
  "read_text w p =
     (case files w p of
        None \<Rightarrow> Inl OSError
      | Some f \<Rightarrow>
          if \<not> readable f then Inl OSError
          else (case body f of None \<Rightarrow> Inl UnicodeDecodeError | Some t \<Rightarrow> Inr t))"

definition write_text :: "world \<Rightarrow> path \<Rightarrow> string \<Rightarrow> py_error + world" where
  "write_text w p t =
     (case files w p of
        None \<Rightarrow>
          if creatable w p
          then Inr (w\<lparr>files := (files w)(p \<mapsto> \<lparr>body = Some t, readable = True, writable = True\<rparr>),
                      writes := writes w @ [p]\<rparr>)
          else Inl OSError
      | Some f \<Rightarrow>
          if writable f
          then Inr (w\<lparr>files := (files w)(p \<mapsto> f\<lparr>body := Some t\<rparr>), writes := writes w @ [p]\<rparr>)
          else Inl OSError)"

text \<open>\<^verbatim>\<open>os.path.exists(p)\<close>\<close>

definition path_exists :: "world \<Rightarrow> path \<Rightarrow> bool" where
  "path_exists w p = (files w p \<noteq> None)"

text \<open>
  The test every script uses to leave icon fonts and favicons alone:
  \<^verbatim>\<open>"fontawesome" in str(f).lower() or "favicon" in str(f).lower()\<close>.
\<close>

definition is_font_path :: "path \<Rightarrow> bool" where
  "is_font_path f = (occurs ''fontawesome'' (lower f) \<or> occurs ''favicon'' (lower f))"

text \<open>\<^verbatim>\<open>Path.name\<close>: the last component of a path.\<close>

definition file_name :: "path \<Rightarrow> string" where
  "file_name p = (case rev (split (CHR ''/'') p) of [] \<Rightarrow> [] | n # _ \<Rightarrow> n)"

subsection \<open>fix\_svgs\_properly.py: \<^verbatim>\<open>process_all_svgs\<close>\<close>

text \<open>The body of the \<^verbatim>\<open>try\<close>: read, fix, write back (always).\<close>

definition properly_fix_file :: "expander \<Rightarrow> world \<Rightarrow> path \<Rightarrow> py_error + world" where
  "properly_fix_file ex w svg_file =
     (case read_text w svg_file of
        Inl e \<Rightarrow> Inl e
      | Inr content \<Rightarrow>
          (case fix_svg_content ex content (file_name svg_file) of
             Inl e \<Rightarrow> Inl e
           | Inr fixed_content \<Rightarrow> write_text w svg_file fixed_content))"

text \<open>One round of the loop, on the world and the counters \<^verbatim>\<open>fixed\<close> and \<^verbatim>\<open>errors\<close>.\<close>

definition properly_step :: "expander \<Rightarrow> world \<times> nat \<times> nat \<Rightarrow> path \<Rightarrow> world \<times> nat \<times> nat" where
  "properly_step ex st svg_file =
     (case st of (w, fixed, errors) \<Rightarrow>
        (case properly_fix_file ex w svg_file of
           Inr w' \<Rightarrow> (w', fixed + 1, errors)
         | Inl e \<Rightarrow> (w, fixed, errors + 1)))"

definition process_all_svgs :: "expander \<Rightarrow> path list \<Rightarrow> world \<Rightarrow> world \<times> nat \<times> nat" where
  "process_all_svgs ex glob w =
     foldl (properly_step ex) (w, 0, 0) (filter (\<lambda>f. \<not> is_font_path f) glob)"

subsection \<open>fix\_svg\_attributes.py: \<^verbatim>\<open>fix_svg_file\<close> and \<^verbatim>\<open>main\<close>\<close>

datatype status = Fixed | Unchanged | Skipped | Error

text \<open>
  \<^verbatim>\<open>validate_svg_structure\<close> only decides whether a warning is printed, so it is left
  out. The second component of the result (the text of the exception) is only printed.
\<close>

definition attributes_fix_svg_file :: "world \<Rightarrow> path \<Rightarrow> status \<times> world" where
  "attributes_fix_svg_file w filepath =
     (case read_text w filepath of
        Inl e \<Rightarrow> (Error, w)
      | Inr content \<Rightarrow>
          if is_font_path filepath then (Skipped, w)
          else
            let fixed_content = fix_malformed_attributes content in
            if fixed_content \<noteq> content
            then (case write_text w filepath fixed_content of
                    Inl e \<Rightarrow> (Error, w)
                  | Inr w' \<Rightarrow> (Fixed, w'))
            else (Unchanged, w))"

definition attributes_step :: "world \<times> (status \<Rightarrow> nat) \<Rightarrow> path \<Rightarrow> world \<times> (status \<Rightarrow> nat)" where
  "attributes_step st svg_file =
     (case st of (w, stats) \<Rightarrow>
        (case attributes_fix_svg_file w svg_file of
           (s, w') \<Rightarrow> (w', stats(s := stats s + 1))))"

definition attributes_main :: "path list \<Rightarrow> world \<Rightarrow> world \<times> (status \<Rightarrow> nat)" where
  "attributes_main glob w = foldl attributes_step (w, \<lambda>s. 0) glob"

subsection \<open>safe\_svg\_improve.py: \<^verbatim>\<open>safe_improve_svg\<close> and \<^verbatim>\<open>main\<close>\<close>

text \<open>
  The function returns a flag and a message. The message of a failure is
  \<^verbatim>\<open>f"Error: {str(e)}"\<close>; what \<^verbatim>\<open>str(e)\<close> prints for an exception raised at a
  path is the parameter \<open>describe\<close>. A failure keeps what was written before it.
\<close>

definition safe_improve_svg ::
    "(py_error \<Rightarrow> path \<Rightarrow> string) \<Rightarrow> world \<Rightarrow> path \<Rightarrow> (bool \<times> string) \<times> world" where
  \<open>safe_improve_svg describe w filepath =
     (case read_text w filepath of
        Inl e \<Rightarrow> ((False, ''Error: '' @ describe e filepath), w)
      | Inr original_content \<Rightarrow>
          if is_font_path filepath then ((False, ''Skipped (font/favicon)''), w)
          else
            let content = safe_improve_content original_content in
            if content \<noteq> original_content then
              let backup_path = filepath @ ''.backup'' in
              (case (if \<not> path_exists w backup_path
                     then write_text w backup_path original_content else Inr w) of
                 Inl e \<Rightarrow> ((False, ''Error: '' @ describe e backup_path), w)
               | Inr w1 \<Rightarrow>
                   (case write_text w1 filepath content of
                      Inl e \<Rightarrow> ((False, ''Error: '' @ describe e filepath), w1)
                    | Inr w2 \<Rightarrow> ((True, ''Improved successfully''), w2)))
            else ((False, ''No changes needed''), w))\<close>

record safe_counts =
  improved :: nat
  skipped :: nat
  unchanged :: nat
  errors :: nat

definition safe_step ::
    "(py_error \<Rightarrow> path \<Rightarrow> string) \<Rightarrow> world \<times> safe_counts \<Rightarrow> path \<Rightarrow> world \<times> safe_counts" where
  \<open>safe_step describe st svg_file =
     (case st of (w, n) \<Rightarrow>
        (case safe_improve_svg describe w svg_file of
           ((success, message), w') \<Rightarrow>
             (w', if success then n\<lparr>improved := improved n + 1\<rparr>
                  else if occurs ''Skipped'' message then n\<lparr>skipped := skipped n + 1\<rparr>
                  else if occurs ''No changes'' message then n\<lparr>unchanged := unchanged n + 1\<rparr>
                  else n\<lparr>errors := errors n + 1\<rparr>)))\<close>

definition safe_main ::
    "(py_error \<Rightarrow> path \<Rightarrow> string) \<Rightarrow> path list \<Rightarrow> world \<Rightarrow> world \<times> safe_counts" where
  "safe_main describe glob w =
     foldl (safe_step describe) (w, \<lparr>improved = 0, skipped = 0, unchanged = 0, errors = 0\<rparr>) glob"

subsection \<open>minimal\_svg\_fix.py: \<^verbatim>\<open>minimal_fix_svg\<close> and \<^verbatim>\<open>main\<close>\<close>

text \<open>The function has no \<^verbatim>\<open>try\<close> of its own: its exceptions reach the loop of \<^verbatim>\<open>main\<close>.\<close>

definition minimal_fix_svg :: "world \<Rightarrow> path \<Rightarrow> py_error + (bool \<times> world)" where
  "minimal_fix_svg w filepath =
     (case read_text w filepath of
        Inl e \<Rightarrow> Inl e
      | Inr content \<Rightarrow>
          if is_font_path filepath then Inr (False, w)
          else (case write_text w filepath (minimal_fix_content content) of
                  Inl e \<Rightarrow> Inl e
                | Inr w' \<Rightarrow> Inr (True, w')))"

text \<open>The loop of \<^verbatim>\<open>main\<close> counts the files fixed; a failure is printed and not counted.\<close>

definition minimal_step :: "world \<times> nat \<Rightarrow> path \<Rightarrow> world \<times> nat" where
  "minimal_step st svg_file =
     (case st of (w, fixed) \<Rightarrow>
        (case minimal_fix_svg w svg_file of
           Inr (True, w') \<Rightarrow> (w', fixed + 1)
         | Inr (False, w') \<Rightarrow> (w', fixed)
         | Inl e \<Rightarrow> (w, fixed)))"

definition minimal_main :: "path list \<Rightarrow> world \<Rightarrow> world \<times> nat" where
  "minimal_main glob w = foldl minimal_step (w, 0) glob"

subsection \<open>fix\_all\_svgs.py: \<^verbatim>\<open>fix_svg_file\<close> and \<^verbatim>\<open>main\<close>\<close>

definition all_fix_svg_file :: "world \<Rightarrow> path \<Rightarrow> bool \<times> world" where
  "all_fix_svg_file w filepath =
     (case read_text w filepath of
        Inl e \<Rightarrow> (False, w)
      | Inr content \<Rightarrow>
          if is_font_path filepath then (False, w)
          else (case write_text w filepath (all_fix_content content) of
                  Inl e \<Rightarrow> (False, w)
                | Inr w' \<Rightarrow> (True, w')))"

record all_counts =
  fixed_count :: nat
  skipped_count :: nat
  error_count :: nat

definition all_step :: "world \<times> all_counts \<Rightarrow> path \<Rightarrow> world \<times> all_counts" where
  "all_step st svg_file =
     (case st of (w, n) \<Rightarrow>
        if is_font_path svg_file then (w, n\<lparr>skipped_count := skipped_count n + 1\<rparr>)
        else (case all_fix_svg_file w svg_file of
                (True, w') \<Rightarrow> (w', n\<lparr>fixed_count := fixed_count n + 1\<rparr>)
              | (False, w') \<Rightarrow> (w', n\<lparr>error_count := error_count n + 1\<rparr>)))"

definition all_main :: "path list \<Rightarrow> world \<Rightarrow> world \<times> all_counts" where
  "all_main glob w =
     foldl all_step (w, \<lparr>fixed_count = 0, skipped_count = 0, error_count = 0\<rparr>) glob"

subsection \<open>beautify\_all\_svgs.py: \<^verbatim>\<open>process_all_svgs\<close>\<close>

text \<open>
  The loop counts nothing. Its transformation \<^verbatim>\<open>create_improved_svg\<close> may raise (it
  indexes and converts the parts of the viewBox); what is proved about the loop holds for
  any transformation, so it is the parameter \<open>improve\<close>.
\<close>

definition beautify_step :: "(string \<Rightarrow> string \<Rightarrow> py_error + string) \<Rightarrow> world \<Rightarrow> path \<Rightarrow> world" where
  \<open>beautify_step improve w svg_file =
     (if is_font_path svg_file then w
      else (case read_text w svg_file of
              Inl e \<Rightarrow> w
            | Inr content \<Rightarrow>
                if occurs ''Beautiful gradient definitions'' content then w
                else (case improve content (file_name svg_file) of
                        Inl e \<Rightarrow> w
                      | Inr improved_svg \<Rightarrow>
                          (case write_text w svg_file improved_svg of Inl e \<Rightarrow> w | Inr w' \<Rightarrow> w'))))\<close>

definition beautify_all :: "(string \<Rightarrow> string \<Rightarrow> py_error + string) \<Rightarrow> path list \<Rightarrow> world \<Rightarrow> world" where
  "beautify_all improve glob w = foldl (beautify_step improve) w glob"



section \<open>The skip rule\<close>

text \<open>A demonstration world: every path may be created, nothing is stored yet.\<close>

definition empty_world :: world where
  "empty_world = \<lparr>files = (\<lambda>p. None), creatable = (\<lambda>p. True), writes = []\<rparr>"

definition text_file :: "string \<Rightarrow> file_entry" where
  "text_file t = \<lparr>body = Some t, readable = True, writable = True\<rparr>"

definition with_file :: "world \<Rightarrow> path \<Rightarrow> string \<Rightarrow> world" where
  "with_file w p t = w\<lparr>files := (files w)(p \<mapsto> text_file t)\<rparr>"

lemma occurs_sublist: "occurs sub s = sublist sub s"
proof (induction s)
  case Nil
  then show ?case by (cases sub) auto
next
  case (Cons x xs)
  then show ?case by (cases sub) (auto simp: sublist_Cons_right)
qed

lemma lower_append: "lower (a @ b) = lower a @ lower b"
  by (simp add: lower_def)

lemma word_before_backup:
  assumes w: "CHR ''.'' \<notin> set word" and nb: "\<not> occurs word ''.backup''"
    and o: "occurs word (lower (q @ ''.backup''))"
  shows "occurs word (lower q)"
proof -
  have lb: "lower ''.backup'' = ''.backup''" by (simp add: lower_def)
  from o have "sublist word (lower q @ ''.backup'')"
    by (simp add: occurs_sublist lower_append lb)
  then consider "sublist word (lower q)" | "sublist word ''.backup''"
    | w1 w2 where "word = w1 @ w2" "suffix w1 (lower q)" "prefix w2 ''.backup''"
    by (auto simp: sublist_append)
  then show ?thesis
  proof cases
    case 1
    then show ?thesis by (simp add: occurs_sublist)
  next
    case 2
    with nb show ?thesis by (simp add: occurs_sublist)
  next
    case 3
    show ?thesis
    proof (cases w2)
      case Nil
      with 3 have "suffix word (lower q)" by simp
      then show ?thesis by (simp add: occurs_sublist)
    next
      case (Cons c cs)
      with 3(3) have "c = CHR ''.''" by (auto simp: prefix_Cons)
      with 3(1) Cons w show ?thesis by simp
    qed
  qed
qed

lemma backup_is_font_path: "is_font_path (q @ ''.backup'') \<Longrightarrow> is_font_path q"
  unfolding is_font_path_def
  using word_before_backup [of "''fontawesome''" q] word_before_backup [of "''favicon''" q]
  by auto

text \<open>
  A path is untouched between two worlds when its file is the same and it was not opened
  for writing in between.
\<close>

definition untouched :: "path \<Rightarrow> world \<Rightarrow> world \<Rightarrow> bool" where
  "untouched p w w' =
     (files w' p = files w p \<and> count_list (writes w') p = count_list (writes w) p)"

lemma untouched_refl [simp]: "untouched p w w"
  by (simp add: untouched_def)

lemma untouched_trans: "untouched p w w1 \<Longrightarrow> untouched p w1 w2 \<Longrightarrow> untouched p w w2"
  by (simp add: untouched_def)

lemma write_untouched: "write_text w q t = Inr w' \<Longrightarrow> p \<noteq> q \<Longrightarrow> untouched p w w'"
  by (auto simp: write_text_def untouched_def split: option.splits if_splits)

lemma foldl_untouched:
  assumes "\<And>st q. q \<in> set qs \<Longrightarrow> untouched p (wof st) (wof (step st q))"
  shows "untouched p (wof st) (wof (foldl step st qs))"
  using assms
proof (induction qs arbitrary: st)
  case Nil
  then show ?case by simp
next
  case (Cons q qs)
  have "untouched p (wof st) (wof (step st q))" using Cons.prems by simp
  moreover have "untouched p (wof (step st q)) (wof (foldl step (step st q) qs))"
    using Cons.IH Cons.prems by simp
  ultimately show ?case by (simp add: untouched_trans [of p "wof st" "wof (step st q)"])
qed

lemma properly_step_untouched:
  "p \<noteq> q \<Longrightarrow> untouched p (fst st) (fst (properly_step ex st q))"
  by (cases st)
     (auto simp: properly_step_def properly_fix_file_def write_untouched split: sum.splits)

lemma attributes_step_untouched:
  "is_font_path p \<Longrightarrow> untouched p (fst st) (fst (attributes_step st q))"
  by (cases st; cases "p = q")
     (auto simp: attributes_step_def attributes_fix_svg_file_def Let_def write_untouched
           split: sum.splits prod.splits)

lemma safe_step_untouched:
  assumes "is_font_path p"
  shows "untouched p (fst st) (fst (safe_step describe st q))"
proof (cases "is_font_path q")
  case True
  then show ?thesis
    by (cases st) (auto simp: safe_step_def safe_improve_svg_def split: sum.splits prod.splits)
next
  case False
  with assms have 1: "p \<noteq> q" by auto
  from False assms have 2: "p \<noteq> q @ ''.backup''" using backup_is_font_path by blast
  show ?thesis using 1 2
    by (cases st)
       (auto simp: safe_step_def safe_improve_svg_def Let_def
             intro: write_untouched untouched_trans [OF write_untouched write_untouched]
             split: sum.splits prod.splits if_splits)
qed

lemma minimal_step_untouched:
  "is_font_path p \<Longrightarrow> untouched p (fst st) (fst (minimal_step st q))"
  by (cases st; cases "p = q")
     (auto simp: minimal_step_def minimal_fix_svg_def write_untouched
           split: sum.splits prod.splits bool.splits)

lemma all_step_untouched:
  "is_font_path p \<Longrightarrow> untouched p (fst st) (fst (all_step st q))"
  by (cases st; cases "p = q")
     (auto simp: all_step_def all_fix_svg_file_def write_untouched
           split: sum.splits prod.splits bool.splits)

lemma beautify_step_untouched:
  "is_font_path p \<Longrightarrow> untouched p w (beautify_step improve w q)"
  by (cases "p = q")
     (auto simp: beautify_step_def write_untouched split: sum.splits)


text \<open>
  C4. A file whose path contains "fontawesome" or "favicon" (in any case) is left as it is
  by a run of each of the six batch scripts, whatever the list of files and the state of
  the file system: its entry is unchanged and it is never opened for writing.
\<close>

theorem C4_skip_rule:
  assumes "is_font_path p"
  shows "untouched p w (fst (process_all_svgs ex glob w))
       \<and> untouched p w (fst (attributes_main glob w))
       \<and> untouched p w (fst (safe_main describe glob w))
       \<and> untouched p w (fst (minimal_main glob w))
       \<and> untouched p w (fst (all_main glob w))
       \<and> untouched p w (beautify_all improve glob w)"
proof (intro conjI)
  have "untouched p (fst (w, 0::nat, 0::nat))
      (fst (foldl (properly_step ex) (w, 0, 0) (filter (\<lambda>f. \<not> is_font_path f) glob)))"
  proof (rule foldl_untouched)
    fix st :: "world \<times> nat \<times> nat" and q
    assume "q \<in> set (filter (\<lambda>f. \<not> is_font_path f) glob)"
    then have "p \<noteq> q" using assms by auto
    then show "untouched p (fst st) (fst (properly_step ex st q))"
      by (rule properly_step_untouched)
  qed
  then show "untouched p w (fst (process_all_svgs ex glob w))"
    by (simp add: process_all_svgs_def)
  show "untouched p w (fst (attributes_main glob w))"
    unfolding attributes_main_def
    using foldl_untouched [of glob p fst attributes_step "(w, \<lambda>s. 0)"]
      attributes_step_untouched [OF assms] by auto
  show "untouched p w (fst (safe_main describe glob w))"
    unfolding safe_main_def
    using foldl_untouched [of glob p fst "safe_step describe"]
      safe_step_untouched [OF assms] by fastforce
  show "untouched p w (fst (minimal_main glob w))"
    unfolding minimal_main_def
    using foldl_untouched [of glob p fst minimal_step "(w, 0)"]
      minimal_step_untouched [OF assms] by auto
  show "untouched p w (fst (all_main glob w))"
    unfolding all_main_def
    using foldl_untouched [of glob p fst all_step]
      all_step_untouched [OF assms] by fastforce
  show "untouched p w (beautify_all improve glob w)"
    unfolding beautify_all_def
    using foldl_untouched [of glob p "\<lambda>w. w" "beautify_step improve" w]
      beautify_step_untouched [OF assms] by auto
qed

text \<open>
  The rule at work: an icon font among the files, whose text every script would change.
\<close>

theorem C4_skip_rule_witness:
  \<open>is_font_path ''docs/FontAwesome/icons.svg''
   \<and> untouched ''docs/FontAwesome/icons.svg''
        (with_file empty_world ''docs/FontAwesome/icons.svg'' ''<svg><text font-size="9">a</text></svg>'')
        (fst (process_all_svgs (\<lambda>t. Inl ReError) [''docs/FontAwesome/icons.svg'']
           (with_file empty_world ''docs/FontAwesome/icons.svg'' ''<svg><text font-size="9">a</text></svg>'')))
   \<and> untouched ''docs/FontAwesome/icons.svg''
        (with_file empty_world ''docs/FontAwesome/icons.svg'' ''<svg><text font-size="9">a</text></svg>'')
        (fst (safe_main (\<lambda>e p. []) [''docs/FontAwesome/icons.svg'']
           (with_file empty_world ''docs/FontAwesome/icons.svg'' ''<svg><text font-size="9">a</text></svg>'')))\<close>
proof -
  have font: \<open>is_font_path ''docs/FontAwesome/icons.svg''\<close>
    unfolding is_font_path_def lower_def by simp
  from font C4_skip_rule [OF font] show ?thesis by blast
qed



section \<open>Writing back\<close>







section \<open>Backups\<close>




lemma backup_differs: "p \<noteq> p @ ''.backup''"
  by simp















section \<open>Failures stay with their file\<close>




lemma write_text_creatable: "write_text w p t = Inr w' \<Longrightarrow> creatable w' = creatable w"
  by (auto simp: write_text_def split: option.splits if_splits)

lemma write_text_same:
  assumes "files w p = files v p" "creatable w p = creatable v p"
  shows "(case write_text w p t of Inl e \<Rightarrow> (case write_text v p t of Inl e' \<Rightarrow> e = e' | Inr v' \<Rightarrow> False)
           | Inr w' \<Rightarrow> (case write_text v p t of Inl e' \<Rightarrow> False | Inr v' \<Rightarrow> files w' p = files v' p))"
  using assms by (auto simp: write_text_def split: option.splits)


subsection \<open>The loops as runs of local steps\<close>





















section \<open>Characters a match must contain\<close>

















section \<open>Self-closing tags under the attribute fixer\<close>

declare re_sub.simps [simp del]










































section \<open>Words that a substitution cannot bring about\<close>

text \<open>
  Two texts agree when one is the beginning of the other. A replacement text is clear of a
  set of words when no word can begin inside it and none can run into it: then a word in
  the output of a substitution lies in a stretch that was copied from the input.
\<close>

definition agree :: "string \<Rightarrow> string \<Rightarrow> bool" where
  "agree u v = (prefix u v \<or> prefix v u)"










lemma agree_Cons [simp]: "agree (x # xs) (y # ys) = (x = y \<and> agree xs ys)"
  by (auto simp: agree_def)

lemma agree_Nil [simp]: "agree [] v" "agree u []"
  by (simp_all add: agree_def)




lemma agree_same_append: "agree (p @ u) (p @ v) = agree u v"
  by (simp add: agree_def)






section \<open>Font sizes\<close>

















































section \<open>The passes after the font-size pass\<close>










section \<open>The font-size minimum\<close>




end
